theory Spec2Isabelle
  imports Main
begin

section \<open>The Todo record (main.go, type Todo)\<close>

text \<open>
  The Go struct \<^verbatim>\<open>Todo\<close> has two \<^verbatim>\<open>int64\<close> fields, two strings and a bool. No handler
  computes with the integers, so they are \<open>int\<close>, and the 64-bit range is checked where a
  value enters the program (\<open>ParseInt\<close>, \<open>decode_int64\<close>). The field \<^verbatim>\<open>Id\<close> is
  written \<open>Id'\<close>, since \<open>Id\<close> is the identity relation of HOL.
\<close>

record Todo =
  Id' :: int
  Title :: string
  Detail :: string
  Point :: int
  Done :: bool

text \<open>\<^verbatim>\<open>var newTodo Todo\<close>: the zero value of the struct.\<close>

definition zero_Todo :: Todo where
  "zero_Todo = \<lparr>Id' = 0, Title = [], Detail = [], Point = 0, Done = False\<rparr>"

section \<open>strconv.ParseInt(s, 10, 64)\<close>

datatype NumError = ErrSyntax | ErrRange

definition digit :: "char \<Rightarrow> int option" where
  "digit c = (let n = (of_char c :: int) in if 48 \<le> n \<and> n \<le> 57 then Some (n - 48) else None)"

text \<open>
  The loop of \<^verbatim>\<open>ParseUint\<close> for base 10 (the \<^verbatim>\<open>uint64\<close> accumulator as a
  non-negative \<open>int\<close>, its overflow checks written out): a character that is no decimal
  digit is a syntax error, a value beyond \<open>2^64 - 1\<close> a range error, whichever comes first.
\<close>

fun ParseUint_loop :: "string \<Rightarrow> int \<Rightarrow> NumError + int" where
  "ParseUint_loop [] n = Inr n"
| "ParseUint_loop (c # cs) n =
     (case digit c of
        None \<Rightarrow> Inl ErrSyntax
      | Some d \<Rightarrow> if 2 ^ 64 \<le> n * 10 + d then Inl ErrRange else ParseUint_loop cs (n * 10 + d))"

definition ParseUint :: "string \<Rightarrow> NumError + int" where
  "ParseUint s = (if s = [] then Inl ErrSyntax else ParseUint_loop s 0)"

text \<open>
  \<^verbatim>\<open>ParseInt\<close>: an optional sign, then \<^verbatim>\<open>ParseUint\<close>; the magnitude must fit the
  signed 64-bit range.
\<close>

definition ParseInt :: "string \<Rightarrow> NumError + int" where
  "ParseInt s =
     (if s = [] then Inl ErrSyntax
      else
        let neg = (hd s = CHR ''-'');
            s1 = (if hd s = CHR ''+'' \<or> hd s = CHR ''-'' then tl s else s)
        in case ParseUint s1 of
             Inl e \<Rightarrow> Inl e
           | Inr un \<Rightarrow>
               if \<not> neg \<and> 2 ^ 63 \<le> un then Inl ErrRange
               else if neg \<and> 2 ^ 63 < un then Inl ErrRange
               else Inr (if neg then - un else un))"

section \<open>The request: path parameter and JSON body\<close>

text \<open>
  A request body is modelled after lexing: \<open>None\<close> is a body that does not start with a
  well-formed JSON value (the empty body included), \<open>Some v\<close> the first JSON value of the
  body. A number literal without fraction and exponent is \<open>JInt\<close> with its value, any other
  number literal is \<open>JFrac\<close> with its text.
\<close>

datatype json =
    JNull
  | JBool bool
  | JInt int
  | JFrac string
  | JString string
  | JArray "json list"
  | JObject "(string \<times> json) list"

record request =
  Param_id :: string
  body :: "json option"

datatype bind_error = SyntaxError | UnmarshalTypeError

text \<open>
  \<^verbatim>\<open>ctx.BindJSON(&newTodo)\<close> runs encoding/json's decoder on the struct the handler
  passes, and the struct has no \<^verbatim>\<open>binding\<close> tag to validate afterwards. The decoder
  writes only the fields whose key the object has: every other field keeps the value the
  struct had before the call. A key matches a field by its \<^verbatim>\<open>json\<close> tag, exactly or
  ignoring case; \<^verbatim>\<open>null\<close> leaves a field as it is; a value of the wrong JSON type, or
  a number that is no 64-bit integer literal, is an error; unknown keys are skipped; of a
  repeated key the last one wins.
\<close>

definition to_lower :: "char \<Rightarrow> char" where
  "to_lower c =
     (let n = (of_char c :: int) in if 65 \<le> n \<and> n \<le> 90 then char_of (n + 32) else c)"

definition decode_int64 :: "json \<Rightarrow> int \<Rightarrow> bind_error + int" where
  "decode_int64 v old =
     (case v of
        JNull \<Rightarrow> Inr old
      | JInt n \<Rightarrow> if - (2 ^ 63) \<le> n \<and> n < 2 ^ 63 then Inr n else Inl UnmarshalTypeError
      | _ \<Rightarrow> Inl UnmarshalTypeError)"

definition decode_string :: "json \<Rightarrow> string \<Rightarrow> bind_error + string" where
  "decode_string v old =
     (case v of
        JNull \<Rightarrow> Inr old
      | JString s \<Rightarrow> Inr s
      | _ \<Rightarrow> Inl UnmarshalTypeError)"

definition decode_bool :: "json \<Rightarrow> bool \<Rightarrow> bind_error + bool" where
  "decode_bool v old =
     (case v of
        JNull \<Rightarrow> Inr old
      | JBool b \<Rightarrow> Inr b
      | _ \<Rightarrow> Inl UnmarshalTypeError)"

definition decode_field :: "string \<times> json \<Rightarrow> Todo \<Rightarrow> bind_error + Todo" where
  "decode_field kv t =
     (let k = map to_lower (fst kv); v = snd kv in
      if k = ''id'' then
        (case decode_int64 v (Id' t) of Inl e \<Rightarrow> Inl e | Inr n \<Rightarrow> Inr (t\<lparr>Id' := n\<rparr>))
      else if k = ''title'' then
        (case decode_string v (Title t) of Inl e \<Rightarrow> Inl e | Inr s \<Rightarrow> Inr (t\<lparr>Title := s\<rparr>))
      else if k = ''detail'' then
        (case decode_string v (Detail t) of Inl e \<Rightarrow> Inl e | Inr s \<Rightarrow> Inr (t\<lparr>Detail := s\<rparr>))
      else if k = ''point'' then
        (case decode_int64 v (Point t) of Inl e \<Rightarrow> Inl e | Inr n \<Rightarrow> Inr (t\<lparr>Point := n\<rparr>))
      else if k = ''done'' then
        (case decode_bool v (Done t) of Inl e \<Rightarrow> Inl e | Inr b \<Rightarrow> Inr (t\<lparr>Done := b\<rparr>))
      else Inr t)"

text \<open>
  The members of the object in the order of the body. (Go's decoder goes on after a type
  error and reports the first one at the end; the handlers drop the struct on any error,
  so stopping at the first error gives them the same.)
\<close>

fun decode_object :: "(string \<times> json) list \<Rightarrow> Todo \<Rightarrow> bind_error + Todo" where
  "decode_object [] t = Inr t"
| "decode_object (kv # kvs) t =
     (case decode_field kv t of Inl e \<Rightarrow> Inl e | Inr t1 \<Rightarrow> decode_object kvs t1)"

definition Unmarshal :: "json \<Rightarrow> Todo \<Rightarrow> bind_error + Todo" where
  "Unmarshal v t =
     (case v of
        JNull \<Rightarrow> Inr t
      | JObject kvs \<Rightarrow> decode_object kvs t
      | _ \<Rightarrow> Inl UnmarshalTypeError)"

definition BindJSON :: "json option \<Rightarrow> Todo \<Rightarrow> bind_error + Todo" where
  "BindJSON b t = (case b of None \<Rightarrow> Inl SyntaxError | Some v \<Rightarrow> Unmarshal v t)"

section \<open>The response\<close>

datatype payload =
    H_message string
  | H_id int
  | JSON_Todo Todo
  | JSON_Todos "Todo list"

record response =
  status :: nat
  payload :: payload

abbreviation StatusOK :: nat where "StatusOK \<equiv> 200"
abbreviation StatusCreated :: nat where "StatusCreated \<equiv> 201"
abbreviation StatusBadRequest :: nat where "StatusBadRequest \<equiv> 400"
abbreviation StatusNotFound :: nat where "StatusNotFound \<equiv> 404"
abbreviation StatusInternalServerError :: nat where "StatusInternalServerError \<equiv> 500"

definition IndentedJSON :: "nat \<Rightarrow> payload \<Rightarrow> response" where
  "IndentedJSON code obj = \<lparr>status = code, payload = obj\<rparr>"

section \<open>Storage: the todos table behind database/sql\<close>

text \<open>
  The handlers reach MySQL through \<^verbatim>\<open>db.Exec\<close>, \<^verbatim>\<open>db.Query\<close> and \<^verbatim>\<open>db.QueryRow\<close>.
  The server and the driver are not code of the repository: this section models them as
  far as the handlers can observe them, from the repository's schema script, from the
  connection settings in \<^verbatim>\<open>main\<close>, and from the documented behaviour of MySQL 8 and
  of go-sql-driver/mysql. The table is the one of the schema script:
  \<^verbatim>\<open>todos(id INT PRIMARY KEY AUTO_INCREMENT, title VARCHAR(255) NOT NULL,
  detail VARCHAR(255) NOT NULL, point INT NOT NULL, done BOOL NOT NULL)\<close>.
  The storage state is the rows in storage order, the AUTO_INCREMENT counter, the
  connection flag \<^verbatim>\<open>ClientFoundRows\<close> of \<^verbatim>\<open>mysql.Config\<close>, the failure the
  environment imposes on the next calls (if any), and the statements received so far,
  each with its bound parameters.
\<close>

datatype sql_value = VNull | VInt int | VStr string | VBool bool

datatype sql_error = ConnectionError | QueryError | ErrNoRows | ScanError | ResultError

text \<open>\<^verbatim>\<open>sql.Result\<close>: the outcome of its two methods.\<close>

record Result =
  LastInsertId :: "sql_error + int"
  RowsAffected :: "sql_error + int"

text \<open>
  What can go wrong in storage: the server cannot be reached (no statement runs); the
  statement runs and the driver cannot report its result; a query runs and a column comes
  back as NULL, which \<^verbatim>\<open>Scan\<close> cannot store in an \<^verbatim>\<open>int64\<close>, a \<^verbatim>\<open>string\<close> or a
  \<^verbatim>\<open>bool\<close>; the iteration over a result set breaks off.
\<close>

datatype fault = ConnFault | ResultFault | ScanFault | RowsFault

record DB =
  todos_tbl :: "Todo list"
  auto_increment :: int
  ClientFoundRows :: bool
  fault :: "fault option"
  stmt_log :: "(string \<times> sql_value list) list"

text \<open>
  \<^verbatim>\<open>main\<close> builds \<^verbatim>\<open>mysql.Config{User, Passwd, Net, Addr, DBName}\<close>: the field
  \<^verbatim>\<open>ClientFoundRows\<close> keeps its zero value \<^verbatim>\<open>false\<close>, so an UPDATE reports the rows
  it changed, not the rows its WHERE clause matched.
\<close>

definition main_DB :: "Todo list \<Rightarrow> int \<Rightarrow> DB" where
  "main_DB rows next_id =
     \<lparr>todos_tbl = rows, auto_increment = next_id, ClientFoundRows = False, fault = None,
      stmt_log = []\<rparr>"

text \<open>The column types: INT is 32-bit signed, VARCHAR(255) holds 255 characters (UTF-8
  code points: the bytes that are no continuation bytes).\<close>

definition fits_INT :: "int \<Rightarrow> bool" where
  "fits_INT n = (- (2 ^ 31) \<le> n \<and> n < 2 ^ 31)"

definition is_continuation :: "char \<Rightarrow> bool" where
  "is_continuation c = (128 \<le> (of_char c :: int) \<and> (of_char c :: int) < 192)"

definition char_length :: "string \<Rightarrow> nat" where
  "char_length s = length (filter (\<lambda>c. \<not> is_continuation c) s)"

definition fits_VARCHAR255 :: "string \<Rightarrow> bool" where
  "fits_VARCHAR255 s = (char_length s \<le> 255)"

text \<open>The first \<open>n\<close> characters of a string: a continuation byte stays with the
  character it continues.\<close>

fun take_chars :: "nat \<Rightarrow> string \<Rightarrow> string" where
  "take_chars n [] = []"
| "take_chars n (c # cs) =
     (if is_continuation c then c # take_chars n cs
      else if n = 0 then []
      else c # take_chars (n - 1) cs)"

text \<open>
  What a VARCHAR(255) column stores of a value, under MySQL's default strict SQL mode: a
  value of at most 255 characters as it is; a longer value whose characters beyond the
  255th are all spaces cut to its first 255 characters (MySQL cuts excess trailing spaces
  with a note, in every SQL mode, and the statement runs); any other longer value fails
  the statement (\<open>None\<close>).
\<close>

definition store_VARCHAR255 :: "string \<Rightarrow> string option" where
  "store_VARCHAR255 s =
     (let kept = take_chars 255 s; excess = drop (length kept) s
      in if list_all (\<lambda>c. c = CHR '' '') excess then Some kept else None)"

fun insert_args :: "sql_value list \<Rightarrow> (string \<times> string \<times> int \<times> bool) option" where
  "insert_args [VStr t, VStr d, VInt p, VBool b] = Some (t, d, p, b)"
| "insert_args _ = None"

fun update_args :: "sql_value list \<Rightarrow> (string \<times> string \<times> int \<times> bool \<times> int) option" where
  "update_args [VStr t, VStr d, VInt p, VBool b, VInt i] = Some (t, d, p, b, i)"
| "update_args _ = None"

fun id_arg :: "sql_value list \<Rightarrow> int option" where
  "id_arg [VInt i] = Some i"
| "id_arg _ = None"

text \<open>
  \<^verbatim>\<open>INSERT INTO todos(title, detail, point, done) VALUES(?, ?, ?, ?)\<close> under MySQL's
  default strict SQL mode: a title or detail that its column does not store, a point
  outside INT and an exhausted AUTO_INCREMENT counter are errors; otherwise the row is
  appended under the counter's value, which is the statement's last insert id, with the
  title and the detail as their columns store them.
\<close>

definition exec_insert :: "sql_value list \<Rightarrow> DB \<Rightarrow> sql_error + (Result \<times> DB)" where
  "exec_insert args db =
     (case insert_args args of
        None \<Rightarrow> Inl QueryError
      | Some (t, d, p, b) \<Rightarrow>
          (case (store_VARCHAR255 t, store_VARCHAR255 d) of
             (Some st, Some sd) \<Rightarrow>
               if fits_INT p \<and> fits_INT (auto_increment db)
               then Inr (\<lparr>LastInsertId = Inr (auto_increment db), RowsAffected = Inr 1\<rparr>,
                         db\<lparr>todos_tbl := todos_tbl db @
                               [\<lparr>Id' = auto_increment db, Title = st, Detail = sd, Point = p,
                                 Done = b\<rparr>],
                            auto_increment := auto_increment db + 1\<rparr>)
               else Inl QueryError
           | _ \<Rightarrow> Inl QueryError))"

text \<open>
  \<^verbatim>\<open>UPDATE todos SET title = ?, detail = ?, point = ?, done = ? WHERE id = ?\<close>. The
  values are stored into the rows the WHERE clause matches, under the same column rules;
  with no such row nothing is stored. The affected-rows count of MySQL is the number of
  rows the statement changed; with \<^verbatim>\<open>ClientFoundRows\<close> it is the number of rows the
  WHERE clause matched.
\<close>

definition exec_update :: "sql_value list \<Rightarrow> DB \<Rightarrow> sql_error + (Result \<times> DB)" where
  "exec_update args db =
     (case update_args args of
        None \<Rightarrow> Inl QueryError
      | Some (t, d, p, b, i) \<Rightarrow>
          let matched = filter (\<lambda>r. Id' r = i) (todos_tbl db)
          in if matched = []
             then Inr (\<lparr>LastInsertId = Inr 0, RowsAffected = Inr 0\<rparr>, db)
             else
               (case (store_VARCHAR255 t, store_VARCHAR255 d) of
                  (Some st, Some sd) \<Rightarrow>
                    if fits_INT p
                    then
                      let set_cols = (\<lambda>r. r\<lparr>Title := st, Detail := sd, Point := p, Done := b\<rparr>);
                          changed = filter (\<lambda>r. set_cols r \<noteq> r) matched
                      in Inr (\<lparr>LastInsertId = Inr 0,
                               RowsAffected =
                                 Inr (int (length (if ClientFoundRows db then matched
                                                   else changed)))\<rparr>,
                              db\<lparr>todos_tbl :=
                                   map (\<lambda>r. if Id' r = i then set_cols r else r) (todos_tbl db)\<rparr>)
                    else Inl QueryError
                | _ \<Rightarrow> Inl QueryError))"

text \<open>\<^verbatim>\<open>DELETE FROM todos WHERE id = ?\<close>.\<close>

definition exec_delete :: "sql_value list \<Rightarrow> DB \<Rightarrow> sql_error + (Result \<times> DB)" where
  "exec_delete args db =
     (case id_arg args of
        None \<Rightarrow> Inl QueryError
      | Some i \<Rightarrow>
          Inr (\<lparr>LastInsertId = Inr 0,
                RowsAffected = Inr (int (length (filter (\<lambda>r. Id' r = i) (todos_tbl db))))\<rparr>,
               db\<lparr>todos_tbl := filter (\<lambda>r. Id' r \<noteq> i) (todos_tbl db)\<rparr>))"

text \<open>
  \<^verbatim>\<open>db.Exec(query, args...)\<close>: the statement is received with its parameters; the
  server understands the three modifying statements of the program.
\<close>

definition DB_Exec :: "string \<Rightarrow> sql_value list \<Rightarrow> DB \<Rightarrow> (sql_error + Result) \<times> DB" where
  "DB_Exec query args db =
     (let db1 = db\<lparr>stmt_log := stmt_log db @ [(query, args)]\<rparr> in
      if fault db = Some ConnFault then (Inl ConnectionError, db1)
      else
        case (if query = ''INSERT INTO todos(title, detail, point, done) VALUES(?, ?, ?, ?)''
                then exec_insert args db1
              else if query = ''UPDATE todos SET title = ?, detail = ?, point = ?, done = ? WHERE id = ?''
                then exec_update args db1
              else if query = ''DELETE FROM todos WHERE id = ?''
                then exec_delete args db1
              else Inl QueryError) of
          Inl e \<Rightarrow> (Inl e, db1)
        | Inr (res, db2) \<Rightarrow>
            (Inr (if fault db = Some ResultFault
                  then \<lparr>LastInsertId = Inl ResultError, RowsAffected = Inl ResultError\<rparr>
                  else res),
             db2))"

text \<open>A row as the driver hands it to \<^verbatim>\<open>Scan\<close>: the five columns in table order.\<close>

definition columns :: "DB \<Rightarrow> Todo \<Rightarrow> sql_value list" where
  "columns db r =
     (if fault db = Some ScanFault then [VNull, VNull, VNull, VNull, VNull]
      else [VInt (Id' r), VStr (Title r), VStr (Detail r), VInt (Point r), VBool (Done r)])"

text \<open>
  \<^verbatim>\<open>db.QueryRow(query, args...)\<close> returns a \<^verbatim>\<open>*Row\<close> that holds either the error of
  the query (\<^verbatim>\<open>sql.ErrNoRows\<close> when the result set is empty) or the first row.
\<close>

type_synonym Row = "sql_error + sql_value list"

definition DB_QueryRow :: "string \<Rightarrow> sql_value list \<Rightarrow> DB \<Rightarrow> Row \<times> DB" where
  "DB_QueryRow query args db =
     (let db1 = db\<lparr>stmt_log := stmt_log db @ [(query, args)]\<rparr> in
      if fault db = Some ConnFault then (Inl ConnectionError, db1)
      else if query = ''SELECT * FROM todos WHERE id = ?'' then
        (case id_arg args of
           None \<Rightarrow> (Inl QueryError, db1)
         | Some i \<Rightarrow>
             (case filter (\<lambda>r. Id' r = i) (todos_tbl db) of
                [] \<Rightarrow> (Inl ErrNoRows, db1)
              | r # _ \<Rightarrow> (Inr (columns db r), db1)))
      else (Inl QueryError, db1))"

text \<open>\<^verbatim>\<open>db.Query(query)\<close>: the rows delivered and the error of the iteration
  (\<^verbatim>\<open>rows.Err()\<close>).\<close>

record Rows =
  delivered :: "sql_value list list"
  Err :: "sql_error option"

definition DB_Query :: "string \<Rightarrow> DB \<Rightarrow> (sql_error + Rows) \<times> DB" where
  "DB_Query query db =
     (let db1 = db\<lparr>stmt_log := stmt_log db @ [(query, [])]\<rparr> in
      if fault db = Some ConnFault then (Inl ConnectionError, db1)
      else if query = ''SELECT * FROM todos'' then
        (if fault db = Some RowsFault
         then (Inr \<lparr>delivered = [], Err = Some ConnectionError\<rparr>, db1)
         else (Inr \<lparr>delivered = map (columns db) (todos_tbl db), Err = None\<rparr>, db1))
      else (Inl QueryError, db1))"

text \<open>
  \<^verbatim>\<open>Scan(&todo.Id, &todo.Title, &todo.Detail, &todo.Point, &todo.Done)\<close>: the error of
  the row if it holds one, else the five columns converted to the fields' types.
\<close>

fun Scan_columns :: "sql_value list \<Rightarrow> sql_error + Todo" where
  "Scan_columns [VInt i, VStr t, VStr d, VInt p, VBool b] =
     Inr \<lparr>Id' = i, Title = t, Detail = d, Point = p, Done = b\<rparr>"
| "Scan_columns _ = Inl ScanError"

definition Scan :: "Row \<Rightarrow> sql_error + Todo" where
  "Scan row = (case row of Inl e \<Rightarrow> Inl e | Inr cols \<Rightarrow> Scan_columns cols)"

section \<open>The handlers (main.go)\<close>

text \<open>
  A handler takes the request and the storage state and returns the response it writes
  and the storage state it leaves. The storage state changes only through \<open>DB_Exec\<close>,
  \<open>DB_Query\<close> and \<open>DB_QueryRow\<close>.
\<close>

definition createTodo :: "request \<Rightarrow> DB \<Rightarrow> response \<times> DB" where
  "createTodo ctx db =
     (case BindJSON (body ctx) zero_Todo of
        Inl err \<Rightarrow>
          (IndentedJSON StatusBadRequest (H_message ''body must be todo's json''), db)
      | Inr newTodo \<Rightarrow>
          (case DB_Exec ''INSERT INTO todos(title, detail, point, done) VALUES(?, ?, ?, ?)''
                  [VStr (Title newTodo), VStr (Detail newTodo), VInt (Point newTodo),
                   VBool (Done newTodo)] db of
             (Inl err, db1) \<Rightarrow>
               (IndentedJSON StatusInternalServerError (H_message ''fail to create todo''), db1)
           | (Inr res, db1) \<Rightarrow>
               (case LastInsertId res of
                  Inl err \<Rightarrow>
                    (IndentedJSON StatusInternalServerError
                       (H_message ''fail to get last insert id''), db1)
                | Inr i \<Rightarrow>
                    (IndentedJSON StatusCreated (JSON_Todo (newTodo\<lparr>Id' := i\<rparr>)), db1))))"

text \<open>The loop of \<^verbatim>\<open>listTodos\<close> over \<^verbatim>\<open>rows.Next()\<close>: it stops at the first row
  that does not scan.\<close>

fun scan_rows :: "sql_value list list \<Rightarrow> Todo list \<Rightarrow> sql_error + Todo list" where
  "scan_rows [] todos = Inr todos"
| "scan_rows (cols # rest) todos =
     (case Scan (Inr cols) of
        Inl err \<Rightarrow> Inl err
      | Inr todo \<Rightarrow> scan_rows rest (todos @ [todo]))"

definition listTodos :: "request \<Rightarrow> DB \<Rightarrow> response \<times> DB" where
  "listTodos ctx db =
     (case DB_Query ''SELECT * FROM todos'' db of
        (Inl err, db1) \<Rightarrow>
          (IndentedJSON StatusInternalServerError (H_message ''fail to exec query''), db1)
      | (Inr rows, db1) \<Rightarrow>
          (case scan_rows (delivered rows) [] of
             Inl err \<Rightarrow>
               (IndentedJSON StatusInternalServerError
                  (H_message ''fail to scan columns to struct''), db1)
           | Inr todos \<Rightarrow>
               (case Err rows of
                  Some err \<Rightarrow>
                    (IndentedJSON StatusInternalServerError (H_message ''fail to read rows''), db1)
                | None \<Rightarrow> (IndentedJSON StatusOK (JSON_Todos todos), db1))))"

definition getTodo :: "request \<Rightarrow> DB \<Rightarrow> response \<times> DB" where
  "getTodo ctx db =
     (case ParseInt (Param_id ctx) of
        Inl err \<Rightarrow>
          (IndentedJSON StatusBadRequest (H_message ''id must can parse string to int64''), db)
      | Inr i \<Rightarrow>
          (case DB_QueryRow ''SELECT * FROM todos WHERE id = ?'' [VInt i] db of
             (row, db1) \<Rightarrow>
               (case Scan row of
                  Inl err \<Rightarrow> (IndentedJSON StatusNotFound (H_message ''not exists id''), db1)
                | Inr todo \<Rightarrow> (IndentedJSON StatusOK (JSON_Todo todo), db1))))"

text \<open>
  \<^verbatim>\<open>updateTodo\<close> stores the path id in \<^verbatim>\<open>newTodo.Id\<close> first and binds the body into
  the same struct afterwards.
\<close>

definition updateTodo :: "request \<Rightarrow> DB \<Rightarrow> response \<times> DB" where
  "updateTodo ctx db =
     (case ParseInt (Param_id ctx) of
        Inl err \<Rightarrow>
          (IndentedJSON StatusBadRequest (H_message ''id must can parse string to int64''), db)
      | Inr i \<Rightarrow>
          (case BindJSON (body ctx) (zero_Todo\<lparr>Id' := i\<rparr>) of
             Inl err \<Rightarrow>
               (IndentedJSON StatusBadRequest (H_message ''body must be todo's json''), db)
           | Inr newTodo \<Rightarrow>
               (case DB_Exec
                       ''UPDATE todos SET title = ?, detail = ?, point = ?, done = ? WHERE id = ?''
                       [VStr (Title newTodo), VStr (Detail newTodo), VInt (Point newTodo),
                        VBool (Done newTodo), VInt (Id' newTodo)] db of
                  (Inl err, db1) \<Rightarrow>
                    (IndentedJSON StatusInternalServerError (H_message ''fail to exec query''), db1)
                | (Inr res, db1) \<Rightarrow>
                    (case RowsAffected res of
                       Inl err \<Rightarrow>
                         (IndentedJSON StatusInternalServerError
                            (H_message ''fail to get affected row count''), db1)
                     | Inr cnt \<Rightarrow>
                         if cnt = 0
                         then (IndentedJSON StatusNotFound (H_message ''not exists id''), db1)
                         else (IndentedJSON StatusOK (JSON_Todo newTodo), db1)))))"

definition deleteTodo :: "request \<Rightarrow> DB \<Rightarrow> response \<times> DB" where
  "deleteTodo ctx db =
     (case ParseInt (Param_id ctx) of
        Inl err \<Rightarrow>
          (IndentedJSON StatusBadRequest (H_message ''id must can parse string to int64''), db)
      | Inr i \<Rightarrow>
          (case DB_Exec ''DELETE FROM todos WHERE id = ?'' [VInt i] db of
             (Inl err, db1) \<Rightarrow>
               (IndentedJSON StatusInternalServerError (H_message ''fail to exec query''), db1)
           | (Inr res, db1) \<Rightarrow>
               (case RowsAffected res of
                  Inl err \<Rightarrow>
                    (IndentedJSON StatusInternalServerError
                       (H_message ''fail to get affected row count''), db1)
                | Inr cnt \<Rightarrow>
                    if cnt = 0
                    then (IndentedJSON StatusNotFound (H_message ''not exists id''), db1)
                    else (IndentedJSON StatusOK (H_id i), db1))))"

section \<open>The router (main.go, func main)\<close>

datatype endpoint = POST_todos | GET_todos | GET_todos_id | PUT_todos_id | DELETE_todos_id

fun router :: "endpoint \<Rightarrow> request \<Rightarrow> DB \<Rightarrow> response \<times> DB" where
  "router POST_todos = createTodo"
| "router GET_todos = listTodos"
| "router GET_todos_id = getTodo"
| "router PUT_todos_id = updateTodo"
| "router DELETE_todos_id = deleteTodo"

section \<open>Statements sent to storage\<close>

text \<open>The SQL text each handler passes to storage, as the literal stands in the handler.\<close>

fun statement_of :: "endpoint \<Rightarrow> string" where
  "statement_of POST_todos = ''INSERT INTO todos(title, detail, point, done) VALUES(?, ?, ?, ?)''"
| "statement_of GET_todos = ''SELECT * FROM todos''"
| "statement_of GET_todos_id = ''SELECT * FROM todos WHERE id = ?''"
| "statement_of PUT_todos_id =
     ''UPDATE todos SET title = ?, detail = ?, point = ?, done = ? WHERE id = ?''"
| "statement_of DELETE_todos_id = ''DELETE FROM todos WHERE id = ?''"

text \<open>What storage received while one request was handled: the statements, each with its
  bound parameters, that the request added to the storage's record.\<close>

definition issued :: "endpoint \<Rightarrow> request \<Rightarrow> DB \<Rightarrow> (string \<times> sql_value list) list" where
  "issued ep ctx db = drop (length (stmt_log db)) (stmt_log (snd (router ep ctx db)))"

section \<open>Storage states\<close>

text \<open>
  AUTO_INCREMENT keeps its counter above every id of the table. The table after the
  repository's schema script holds one row, under id 1.
\<close>

definition counter_above_ids :: "DB \<Rightarrow> bool" where
  "counter_above_ids db = list_all (\<lambda>r. Id' r < auto_increment db) (todos_tbl db)"

definition seed_row :: Todo where
  "seed_row =
     \<lparr>Id' = 1, Title = ''test_title'', Detail = ''test_detail'', Point = 0, Done = False\<rparr>"

definition seed_DB :: DB where
  "seed_DB = main_DB [seed_row] 2"

section \<open>The title a body submits\<close>

text \<open>
  The title of a request body, read off the body itself: the string of the last
  \<^verbatim>\<open>title\<close> member of the object that is a string (keys compared ignoring case), and
  the empty string when the object has none or the body is no object. This is the
  description the statement about the stored title is measured against; the handler does
  not use it.
\<close>

fun title_member :: "(string \<times> json) list \<Rightarrow> string option" where
  "title_member [] = None"
| "title_member (kv # kvs) =
     (case title_member kvs of
        Some s \<Rightarrow> Some s
      | None \<Rightarrow>
          if map to_lower (fst kv) = ''title''
          then (case snd kv of JString s \<Rightarrow> Some s | _ \<Rightarrow> None)
          else None)"

definition body_title :: "json option \<Rightarrow> string" where
  "body_title b =
     (case b of
        Some (JObject kvs) \<Rightarrow> (case title_member kvs of Some s \<Rightarrow> s | None \<Rightarrow> [])
      | _ \<Rightarrow> [])"

section \<open>Evaluation\<close>

lemmas eval_defs =
  createTodo_def getTodo_def updateTodo_def deleteTodo_def
  ParseInt_def ParseUint_def digit_def
  BindJSON_def Unmarshal_def decode_field_def decode_int64_def decode_string_def decode_bool_def
  to_lower_def zero_Todo_def IndentedJSON_def
  DB_Exec_def DB_QueryRow_def exec_insert_def exec_update_def exec_delete_def columns_def
  Scan_def fits_INT_def fits_VARCHAR255_def char_length_def is_continuation_def
  store_VARCHAR255_def body_title_def main_DB_def seed_DB_def seed_row_def Let_def

text \<open>A value that fits the column is stored as it is.\<close>

lemma take_chars_all: "char_length s \<le> n \<Longrightarrow> take_chars n s = s"
  by (induction s arbitrary: n) (auto simp: char_length_def split: if_splits)

lemma store_fits: "fits_VARCHAR255 s \<Longrightarrow> store_VARCHAR255 s = Some s"
  by (simp add: store_VARCHAR255_def fits_VARCHAR255_def take_chars_all)

text \<open>A value of 255 letters and one space is stored without the space; with a letter in
  place of the space it is refused.\<close>

lemma store_trailing_space:
  "store_VARCHAR255 (replicate 255 CHR ''a'' @ '' '') = Some (replicate 255 CHR ''a'')"
  by code_simp

lemma store_too_long: "store_VARCHAR255 (replicate 255 CHR ''a'' @ ''b'') = None"
  by code_simp

lemma ParseInt_examples:
  "ParseInt ''1'' = Inr 1"
  "ParseInt ''+7'' = Inr 7"
  "ParseInt ''-12'' = Inr (- 12)"
  "ParseInt ''9223372036854775807'' = Inr 9223372036854775807"
  "ParseInt ''9223372036854775808'' = Inl ErrRange"
  "ParseInt ''-9223372036854775808'' = Inr (- 9223372036854775808)"
  "ParseInt ''abc'' = Inl ErrSyntax"
  "ParseInt ''1.5'' = Inl ErrSyntax"
  "ParseInt [] = Inl ErrSyntax"
  "ParseInt ''-'' = Inl ErrSyntax"
  by (simp_all add: ParseInt_def ParseUint_def digit_def)

section \<open>Malformed path ids\<close>

text \<open>
  Claim C6. When the \<^verbatim>\<open>id\<close> path segment of a GET, PUT or DELETE request on
  \<^verbatim>\<open>/todos/{id}\<close> does not parse as a base-10 64-bit integer, the handler answers
  400, and so never 500.
\<close>

theorem C6_unparseable_id_is_400:
  assumes "ParseInt (Param_id ctx) = Inl e"
  shows "status (fst (getTodo ctx db)) = StatusBadRequest
       \<and> status (fst (updateTodo ctx db)) = StatusBadRequest
       \<and> status (fst (deleteTodo ctx db)) = StatusBadRequest
       \<and> status (fst (getTodo ctx db)) \<noteq> StatusInternalServerError
       \<and> status (fst (updateTodo ctx db)) \<noteq> StatusInternalServerError
       \<and> status (fst (deleteTodo ctx db)) \<noteq> StatusInternalServerError"
  using assms by (simp add: getTodo_def updateTodo_def deleteTodo_def IndentedJSON_def)

text \<open>The segment \<^verbatim>\<open>abc\<close>, with the storage unreachable: still 400.\<close>

theorem C6_unparseable_id_witness:
  "ParseInt ''abc'' = Inl ErrSyntax
   \<and> status (fst (getTodo \<lparr>Param_id = ''abc'', body = None\<rparr>
                 (seed_DB\<lparr>fault := Some ConnFault\<rparr>))) = StatusBadRequest
   \<and> status (fst (updateTodo \<lparr>Param_id = ''abc'', body = None\<rparr>
                 (seed_DB\<lparr>fault := Some ConnFault\<rparr>))) = StatusBadRequest
   \<and> status (fst (deleteTodo \<lparr>Param_id = ''abc'', body = None\<rparr>
                 (seed_DB\<lparr>fault := Some ConnFault\<rparr>))) = StatusBadRequest"
proof -
  have bad: "ParseInt (Param_id \<lparr>Param_id = ''abc'', body = None\<rparr>) = Inl ErrSyntax"
    by (simp add: ParseInt_def ParseUint_def digit_def)
  from C6_unparseable_id_is_400 [OF bad, of "seed_DB\<lparr>fault := Some ConnFault\<rparr>"] bad
  show ?thesis by simp
qed

section \<open>What the storage calls leave behind\<close>

lemma exec_insert_log: "exec_insert args db = Inr (res, db1) \<Longrightarrow> stmt_log db1 = stmt_log db"
  by (auto simp: exec_insert_def split: option.splits if_splits)

lemma exec_update_log: "exec_update args db = Inr (res, db1) \<Longrightarrow> stmt_log db1 = stmt_log db"
  by (auto simp: exec_update_def Let_def split: option.splits if_splits)

lemma exec_delete_log: "exec_delete args db = Inr (res, db1) \<Longrightarrow> stmt_log db1 = stmt_log db"
  by (auto simp: exec_delete_def split: option.splits)

lemma DB_Exec_log: "stmt_log (snd (DB_Exec q args db)) = stmt_log db @ [(q, args)]"
proof -
  let ?db1 = "db\<lparr>stmt_log := stmt_log db @ [(q, args)]\<rparr>"
  let ?run = "if q = ''INSERT INTO todos(title, detail, point, done) VALUES(?, ?, ?, ?)''
                then exec_insert args ?db1
              else if q = ''UPDATE todos SET title = ?, detail = ?, point = ?, done = ? WHERE id = ?''
                then exec_update args ?db1
              else if q = ''DELETE FROM todos WHERE id = ?''
                then exec_delete args ?db1
              else Inl QueryError"
  show ?thesis
  proof (cases "fault db = Some ConnFault")
    case True
    then show ?thesis by (simp add: DB_Exec_def Let_def)
  next
    case False
    show ?thesis
    proof (cases ?run)
      case (Inl e)
      with False show ?thesis by (simp add: DB_Exec_def Let_def)
    next
      case (Inr p)
      obtain res db2 where p: "p = (res, db2)" by (cases p)
      from Inr p have "stmt_log db2 = stmt_log ?db1"
        using exec_insert_log [of args ?db1 res db2] exec_update_log [of args ?db1 res db2]
          exec_delete_log [of args ?db1 res db2]
        by (simp split: if_splits)
      with False Inr p show ?thesis by (simp add: DB_Exec_def Let_def)
    qed
  qed
qed

lemma DB_QueryRow_log: "stmt_log (snd (DB_QueryRow q args db)) = stmt_log db @ [(q, args)]"
  by (simp add: DB_QueryRow_def Let_def split: option.split list.split)

lemma DB_Query_log: "stmt_log (snd (DB_Query q db)) = stmt_log db @ [(q, [])]"
  by (simp add: DB_Query_def Let_def)

text \<open>Past its checks of the request, a handler leaves the storage as its one storage call
  left it.\<close>

lemma createTodo_snd:
  "BindJSON (body ctx) zero_Todo = Inr t \<Longrightarrow>
   snd (createTodo ctx db) =
   snd (DB_Exec ''INSERT INTO todos(title, detail, point, done) VALUES(?, ?, ?, ?)''
          [VStr (Title t), VStr (Detail t), VInt (Point t), VBool (Done t)] db)"
  by (simp add: createTodo_def split: sum.split prod.split)

lemma listTodos_snd: "snd (listTodos ctx db) = snd (DB_Query ''SELECT * FROM todos'' db)"
  by (simp add: listTodos_def split: sum.split prod.split option.split)

lemma getTodo_snd:
  "ParseInt (Param_id ctx) = Inr i \<Longrightarrow>
   snd (getTodo ctx db) = snd (DB_QueryRow ''SELECT * FROM todos WHERE id = ?'' [VInt i] db)"
  by (simp add: getTodo_def split: sum.split prod.split)

lemma updateTodo_snd:
  "ParseInt (Param_id ctx) = Inr i \<Longrightarrow> BindJSON (body ctx) (zero_Todo\<lparr>Id' := i\<rparr>) = Inr t \<Longrightarrow>
   snd (updateTodo ctx db) =
   snd (DB_Exec ''UPDATE todos SET title = ?, detail = ?, point = ?, done = ? WHERE id = ?''
          [VStr (Title t), VStr (Detail t), VInt (Point t), VBool (Done t), VInt (Id' t)] db)"
  by (simp add: updateTodo_def split: sum.split prod.split)

lemma deleteTodo_snd:
  "ParseInt (Param_id ctx) = Inr i \<Longrightarrow>
   snd (deleteTodo ctx db) = snd (DB_Exec ''DELETE FROM todos WHERE id = ?'' [VInt i] db)"
  by (simp add: deleteTodo_def split: sum.split prod.split)

section \<open>Requests rejected with 400\<close>

lemma createTodo_bound_not_400:
  "BindJSON (body ctx) zero_Todo = Inr t \<Longrightarrow>
   status (fst (createTodo ctx db)) \<noteq> StatusBadRequest"
  by (simp add: createTodo_def IndentedJSON_def split: sum.split prod.split)

lemma updateTodo_bound_not_400:
  "ParseInt (Param_id ctx) = Inr i \<Longrightarrow> BindJSON (body ctx) (zero_Todo\<lparr>Id' := i\<rparr>) = Inr t \<Longrightarrow>
   status (fst (updateTodo ctx db)) \<noteq> StatusBadRequest"
  by (simp add: updateTodo_def IndentedJSON_def split: sum.split prod.split)

lemma deleteTodo_parsed_not_400:
  "ParseInt (Param_id ctx) = Inr i \<Longrightarrow> status (fst (deleteTodo ctx db)) \<noteq> StatusBadRequest"
  by (simp add: deleteTodo_def IndentedJSON_def split: sum.split prod.split)

lemma createTodo_400:
  assumes "status (fst (createTodo ctx db)) = StatusBadRequest"
  shows "snd (createTodo ctx db) = db"
proof (cases "BindJSON (body ctx) zero_Todo")
  case (Inl e)
  then show ?thesis by (simp add: createTodo_def)
next
  case (Inr t)
  with createTodo_bound_not_400 [OF Inr, of db] assms show ?thesis by simp
qed

lemma updateTodo_400:
  assumes "status (fst (updateTodo ctx db)) = StatusBadRequest"
  shows "snd (updateTodo ctx db) = db"
proof (cases "ParseInt (Param_id ctx)")
  case (Inl e)
  then show ?thesis by (simp add: updateTodo_def)
next
  case (Inr i)
  show ?thesis
  proof (cases "BindJSON (body ctx) (zero_Todo\<lparr>Id' := i\<rparr>)")
    case (Inl e)
    with Inr show ?thesis by (simp add: updateTodo_def)
  next
    case bound: (Inr newTodo)
    from updateTodo_bound_not_400 [OF Inr bound, of db] assms show ?thesis by simp
  qed
qed

lemma deleteTodo_400:
  assumes "status (fst (deleteTodo ctx db)) = StatusBadRequest"
  shows "snd (deleteTodo ctx db) = db"
proof (cases "ParseInt (Param_id ctx)")
  case (Inl e)
  then show ?thesis by (simp add: deleteTodo_def)
next
  case (Inr i)
  with deleteTodo_parsed_not_400 [OF Inr, of db] assms show ?thesis by simp
qed

text \<open>
  Claim C10. A create, update or delete request that is answered with 400 (unparseable
  id or body that does not bind) has made no storage call: the storage state, the record
  of received statements included, is the one before the request.
\<close>

theorem C10_rejected_request_leaves_storage:
  "(status (fst (createTodo ctx db)) = StatusBadRequest \<longrightarrow> snd (createTodo ctx db) = db)
 \<and> (status (fst (updateTodo ctx db)) = StatusBadRequest \<longrightarrow> snd (updateTodo ctx db) = db)
 \<and> (status (fst (deleteTodo ctx db)) = StatusBadRequest \<longrightarrow> snd (deleteTodo ctx db) = db)"
  using createTodo_400 updateTodo_400 deleteTodo_400 by blast

text \<open>A body whose \<^verbatim>\<open>point\<close> is a string, on POST and on PUT with a good id, and a
  DELETE with the id \<^verbatim>\<open>1x\<close>: each is answered 400 and leaves the seeded table.\<close>

theorem C10_rejected_request_witness:
  "status (fst (createTodo \<lparr>Param_id = [], body = Some (JObject [(''point'', JString ''3'')])\<rparr>
                 seed_DB)) = StatusBadRequest
   \<and> snd (createTodo \<lparr>Param_id = [], body = Some (JObject [(''point'', JString ''3'')])\<rparr>
             seed_DB) = seed_DB
   \<and> status (fst (updateTodo \<lparr>Param_id = ''1'', body = Some (JObject [(''point'', JString ''3'')])\<rparr>
                 seed_DB)) = StatusBadRequest
   \<and> snd (updateTodo \<lparr>Param_id = ''1'', body = Some (JObject [(''point'', JString ''3'')])\<rparr>
             seed_DB) = seed_DB
   \<and> status (fst (deleteTodo \<lparr>Param_id = ''1x'', body = None\<rparr> seed_DB)) = StatusBadRequest
   \<and> snd (deleteTodo \<lparr>Param_id = ''1x'', body = None\<rparr> seed_DB) = seed_DB"
proof -
  have c: "status (fst (createTodo
             \<lparr>Param_id = [], body = Some (JObject [(''point'', JString ''3'')])\<rparr> seed_DB))
           = StatusBadRequest"
    by (simp add: eval_defs)
  have u: "status (fst (updateTodo
             \<lparr>Param_id = ''1'', body = Some (JObject [(''point'', JString ''3'')])\<rparr> seed_DB))
           = StatusBadRequest"
    by (simp add: eval_defs)
  have d: "status (fst (deleteTodo \<lparr>Param_id = ''1x'', body = None\<rparr> seed_DB)) = StatusBadRequest"
    by (simp add: eval_defs)
  from c u d
    C10_rejected_request_leaves_storage
      [of "\<lparr>Param_id = [], body = Some (JObject [(''point'', JString ''3'')])\<rparr>" seed_DB]
    C10_rejected_request_leaves_storage
      [of "\<lparr>Param_id = ''1'', body = Some (JObject [(''point'', JString ''3'')])\<rparr>" seed_DB]
    C10_rejected_request_leaves_storage [of "\<lparr>Param_id = ''1x'', body = None\<rparr>" seed_DB]
  show ?thesis by simp
qed

section \<open>The text of the statements\<close>

lemma issued_createTodo:
  "issued POST_todos ctx db = [] \<or>
   (\<exists>args. issued POST_todos ctx db = [(statement_of POST_todos, args)])"
proof (cases "BindJSON (body ctx) zero_Todo")
  case (Inl e)
  then show ?thesis by (simp add: issued_def createTodo_def)
next
  case (Inr t)
  then show ?thesis by (simp add: issued_def createTodo_snd DB_Exec_log)
qed

lemma issued_listTodos: "issued GET_todos ctx db = [(statement_of GET_todos, [])]"
  by (simp add: issued_def listTodos_snd DB_Query_log)

lemma issued_getTodo:
  "issued GET_todos_id ctx db = [] \<or>
   (\<exists>args. issued GET_todos_id ctx db = [(statement_of GET_todos_id, args)])"
proof (cases "ParseInt (Param_id ctx)")
  case (Inl e)
  then show ?thesis by (simp add: issued_def getTodo_def)
next
  case (Inr i)
  then show ?thesis by (simp add: issued_def getTodo_snd DB_QueryRow_log)
qed

lemma issued_updateTodo:
  "issued PUT_todos_id ctx db = [] \<or>
   (\<exists>args. issued PUT_todos_id ctx db = [(statement_of PUT_todos_id, args)])"
proof (cases "ParseInt (Param_id ctx)")
  case (Inl e)
  then show ?thesis by (simp add: issued_def updateTodo_def)
next
  case (Inr i)
  show ?thesis
  proof (cases "BindJSON (body ctx) (zero_Todo\<lparr>Id' := i\<rparr>)")
    case (Inl e)
    with Inr show ?thesis by (simp add: issued_def updateTodo_def)
  next
    case bound: (Inr t)
    with Inr show ?thesis by (simp add: issued_def updateTodo_snd DB_Exec_log)
  qed
qed

lemma issued_deleteTodo:
  "issued DELETE_todos_id ctx db = [] \<or>
   (\<exists>args. issued DELETE_todos_id ctx db = [(statement_of DELETE_todos_id, args)])"
proof (cases "ParseInt (Param_id ctx)")
  case (Inl e)
  then show ?thesis by (simp add: issued_def deleteTodo_def)
next
  case (Inr i)
  then show ?thesis by (simp add: issued_def deleteTodo_snd DB_Exec_log)
qed

text \<open>A request makes at most one storage call, and its text is the endpoint's.\<close>

lemma issued_cases:
  "issued ep ctx db = [] \<or> (\<exists>args. issued ep ctx db = [(statement_of ep, args)])"
proof (cases ep)
  case POST_todos
  then show ?thesis using issued_createTodo by simp
next
  case GET_todos
  then show ?thesis using issued_listTodos by simp
next
  case GET_todos_id
  then show ?thesis using issued_getTodo by simp
next
  case PUT_todos_id
  then show ?thesis using issued_updateTodo by simp
next
  case DELETE_todos_id
  then show ?thesis using issued_deleteTodo by simp
qed

text \<open>
  Claim C9. Every SQL statement a handler sends is the fixed text of its endpoint, with
  \<^verbatim>\<open>?\<close> placeholders: for any two requests to one endpoint, on any two storage
  states, the statement texts are the same text, whatever the requests hold. The values of
  the request travel in the parameter list.
\<close>

theorem C9_statement_text_is_constant:
  assumes "(q1, args1) \<in> set (issued ep ctx1 db1)"
    and "(q2, args2) \<in> set (issued ep ctx2 db2)"
  shows "q1 = statement_of ep \<and> q2 = statement_of ep \<and> q1 = q2"
proof -
  from assms(1) issued_cases [of ep ctx1 db1] have "q1 = statement_of ep" by auto
  moreover from assms(2) issued_cases [of ep ctx2 db2] have "q2 = statement_of ep" by auto
  ultimately show ?thesis by simp
qed

text \<open>Two PUT requests, the second with SQL in its title: the same statement text, the
  title among the parameters.\<close>

theorem C9_statement_text_witness:
  "(''UPDATE todos SET title = ?, detail = ?, point = ?, done = ? WHERE id = ?'',
    [VStr ''x'', VStr [], VInt 0, VBool False, VInt 1])
     \<in> set (issued PUT_todos_id
              \<lparr>Param_id = ''1'', body = Some (JObject [(''title'', JString ''x'')])\<rparr> seed_DB)
   \<and> (''UPDATE todos SET title = ?, detail = ?, point = ?, done = ? WHERE id = ?'',
       [VStr ''a'; DROP TABLE todos; --'', VStr [], VInt 0, VBool False, VInt 7])
     \<in> set (issued PUT_todos_id
              \<lparr>Param_id = ''7'',
               body = Some (JObject [(''title'', JString ''a'; DROP TABLE todos; --'')])\<rparr>
              (main_DB [] 1))
   \<and> statement_of PUT_todos_id =
       ''UPDATE todos SET title = ?, detail = ?, point = ?, done = ? WHERE id = ?''"
proof -
  have one: "(''UPDATE todos SET title = ?, detail = ?, point = ?, done = ? WHERE id = ?'',
      [VStr ''x'', VStr [], VInt 0, VBool False, VInt 1])
     \<in> set (issued PUT_todos_id
              \<lparr>Param_id = ''1'', body = Some (JObject [(''title'', JString ''x'')])\<rparr> seed_DB)"
    by (simp add: issued_def eval_defs)
  have two: "(''UPDATE todos SET title = ?, detail = ?, point = ?, done = ? WHERE id = ?'',
       [VStr ''a'; DROP TABLE todos; --'', VStr [], VInt 0, VBool False, VInt 7])
     \<in> set (issued PUT_todos_id
              \<lparr>Param_id = ''7'',
               body = Some (JObject [(''title'', JString ''a'; DROP TABLE todos; --'')])\<rparr>
              (main_DB [] 1))"
    by (simp add: issued_def eval_defs)
  from C9_statement_text_is_constant [OF one two] one two show ?thesis by simp
qed

section \<open>Create\<close>

text \<open>A create request answered 201: the body bound, the columns store the values, and
  the INSERT appended one row under the AUTO_INCREMENT counter. The response holds the
  title and the detail as bound, the row holds them as stored.\<close>

lemma createTodo_Created:
  assumes "createTodo ctx db = (resp, db1)" and "status resp = StatusCreated"
  shows "\<exists>t st sd. BindJSON (body ctx) zero_Todo = Inr t
           \<and> store_VARCHAR255 (Title t) = Some st \<and> store_VARCHAR255 (Detail t) = Some sd
           \<and> fits_INT (Point t) \<and> fits_INT (auto_increment db)
           \<and> resp = IndentedJSON StatusCreated (JSON_Todo (t\<lparr>Id' := auto_increment db\<rparr>))
           \<and> db1 = db\<lparr>stmt_log := stmt_log db @
                       [(''INSERT INTO todos(title, detail, point, done) VALUES(?, ?, ?, ?)'',
                         [VStr (Title t), VStr (Detail t), VInt (Point t), VBool (Done t)])],
                     todos_tbl := todos_tbl db @
                       [\<lparr>Id' = auto_increment db, Title = st, Detail = sd, Point = Point t,
                         Done = Done t\<rparr>],
                     auto_increment := auto_increment db + 1\<rparr>"
proof (cases "BindJSON (body ctx) zero_Todo")
  case (Inl e)
  with assms show ?thesis by (auto simp: createTodo_def IndentedJSON_def)
next
  case (Inr t)
  with assms show ?thesis
    by (auto simp: createTodo_def IndentedJSON_def DB_Exec_def exec_insert_def Let_def
        split: if_splits sum.splits prod.splits option.splits)
qed

text \<open>The decoder binds the title the body submits.\<close>

lemma decode_field_title:
  assumes "decode_field kv t = Inr t1"
  shows "Title t1 =
         (if map to_lower (fst kv) = ''title''
          then (case snd kv of JString s \<Rightarrow> s | _ \<Rightarrow> Title t)
          else Title t)"
  using assms
  by (auto simp: decode_field_def decode_string_def Let_def
      split: if_splits sum.splits json.splits)

lemma decode_field_title_string:
  assumes "decode_field kv t = Inr t1" and "map to_lower (fst kv) = ''title''"
  shows "snd kv = JNull \<or> (\<exists>s. snd kv = JString s)"
  using assms
  by (auto simp: decode_field_def decode_string_def Let_def
      split: if_splits sum.splits json.splits)

lemma decode_object_title:
  "decode_object kvs t = Inr t1 \<Longrightarrow>
   Title t1 = (case title_member kvs of Some s \<Rightarrow> s | None \<Rightarrow> Title t)"
proof (induction kvs arbitrary: t)
  case Nil
  then show ?case by simp
next
  case (Cons kv kvs)
  from Cons.prems obtain t2 where
    step: "decode_field kv t = Inr t2" and rest: "decode_object kvs t2 = Inr t1"
    by (auto split: sum.splits)
  from Cons.IH [OF rest] have later:
    "Title t1 = (case title_member kvs of Some s \<Rightarrow> s | None \<Rightarrow> Title t2)" .
  show ?case
  proof (cases "title_member kvs")
    case (Some s)
    with later show ?thesis by simp
  next
    case None
    with later have "Title t1 = Title t2" by simp
    with decode_field_title [OF step] decode_field_title_string [OF step] None
    show ?thesis by (auto split: json.splits)
  qed
qed

lemma BindJSON_title: "BindJSON b zero_Todo = Inr t \<Longrightarrow> Title t = body_title b"
  by (auto simp: BindJSON_def Unmarshal_def body_title_def zero_Todo_def
      dest: decode_object_title split: option.splits json.splits)

text \<open>
  Claim C3, as the handler has it. A create request answered 201 has inserted one row,
  and its title is the title the body submits as the VARCHAR(255) column stores it. The
  title the body submits is the string of the last \<^verbatim>\<open>title\<close> member of the object that
  is not null, and the empty string when there is none. The column stores a title of at
  most 255 characters as it is and cuts a longer one, which can then only end in excess
  spaces, to its first 255 characters. The handler does not ask for a non-empty title.
\<close>

theorem C3_created_title_is_stored_body_title:
  assumes "createTodo ctx db = (resp, db1)" and "status resp = StatusCreated"
  shows "\<exists>row. todos_tbl db1 = todos_tbl db @ [row]
           \<and> store_VARCHAR255 (body_title (body ctx)) = Some (Title row)
           \<and> (fits_VARCHAR255 (body_title (body ctx)) \<longrightarrow> Title row = body_title (body ctx))"
proof -
  from createTodo_Created [OF assms] obtain t st sd where
    bound: "BindJSON (body ctx) zero_Todo = Inr t"
    and st: "store_VARCHAR255 (Title t) = Some st"
    and db1: "todos_tbl db1 = todos_tbl db @
                [\<lparr>Id' = auto_increment db, Title = st, Detail = sd, Point = Point t,
                  Done = Done t\<rparr>]"
    by auto
  from BindJSON_title [OF bound] st
  have stored: "store_VARCHAR255 (body_title (body ctx)) = Some st" by simp
  with store_fits [of "body_title (body ctx)"]
  have "fits_VARCHAR255 (body_title (body ctx)) \<longrightarrow> st = body_title (body ctx)" by auto
  with db1 stored show ?thesis by auto
qed

text \<open>The bodies \<^verbatim>\<open>{"Title": "abc", "title": null}\<close> and \<^verbatim>\<open>{"detail": "d"}\<close> on
  the seeded table: 201 both; the first row stored has the title \<^verbatim>\<open>abc\<close>, the second
  the empty title.\<close>

theorem C3_created_title_witness:
  "status (fst (createTodo
      \<lparr>Param_id = [], body = Some (JObject [(''Title'', JString ''abc''), (''title'', JNull)])\<rparr>
      seed_DB)) = StatusCreated
   \<and> body_title (Some (JObject [(''Title'', JString ''abc''), (''title'', JNull)])) = ''abc''
   \<and> fits_VARCHAR255 ''abc''
   \<and> todos_tbl (snd (createTodo
        \<lparr>Param_id = [], body = Some (JObject [(''Title'', JString ''abc''), (''title'', JNull)])\<rparr>
        seed_DB)) =
       [seed_row, \<lparr>Id' = 2, Title = ''abc'', Detail = [], Point = 0, Done = False\<rparr>]
   \<and> status (fst (createTodo
        \<lparr>Param_id = [], body = Some (JObject [(''detail'', JString ''d'')])\<rparr> seed_DB))
       = StatusCreated
   \<and> body_title (Some (JObject [(''detail'', JString ''d'')])) = []
   \<and> todos_tbl (snd (createTodo
        \<lparr>Param_id = [], body = Some (JObject [(''detail'', JString ''d'')])\<rparr> seed_DB)) =
       [seed_row, \<lparr>Id' = 2, Title = [], Detail = ''d'', Point = 0, Done = False\<rparr>]"
proof -
  let ?abc = "\<lparr>Param_id = [],
               body = Some (JObject [(''Title'', JString ''abc''), (''title'', JNull)])\<rparr>"
  let ?d = "\<lparr>Param_id = [], body = Some (JObject [(''detail'', JString ''d'')])\<rparr>"
  have run1: "createTodo ?abc seed_DB = (fst (createTodo ?abc seed_DB), snd (createTodo ?abc seed_DB))"
    by simp
  have ok1: "status (fst (createTodo ?abc seed_DB)) = StatusCreated"
    by code_simp
  have title1: "body_title (body ?abc) = ''abc''"
    by code_simp
  have fits1: "fits_VARCHAR255 ''abc''"
    by (simp add: fits_VARCHAR255_def char_length_def is_continuation_def)
  have old: "todos_tbl seed_DB = [seed_row]"
    by (simp add: seed_DB_def main_DB_def)
  have tbl1: "todos_tbl (snd (createTodo ?abc seed_DB)) =
      [seed_row, \<lparr>Id' = 2, Title = ''abc'', Detail = [], Point = 0, Done = False\<rparr>]"
    by code_simp
  have run2: "createTodo ?d seed_DB = (fst (createTodo ?d seed_DB), snd (createTodo ?d seed_DB))"
    by simp
  have ok2: "status (fst (createTodo ?d seed_DB)) = StatusCreated"
    by (simp add: eval_defs)
  have title2: "body_title (body ?d) = []"
    by (simp add: body_title_def to_lower_def)
  have tbl2: "todos_tbl (snd (createTodo ?d seed_DB)) =
      [seed_row, \<lparr>Id' = 2, Title = [], Detail = ''d'', Point = 0, Done = False\<rparr>]"
    by (simp add: eval_defs)
  from C3_created_title_is_stored_body_title [OF run1 ok1]
    C3_created_title_is_stored_body_title [OF run2 ok2]
    ok1 title1 fits1 tbl1 ok2 title2 tbl2
  show ?thesis by simp
qed

text \<open>
  Claim C3, as the specification has it ("every stored record has a non-empty title"),
  fails: the bodies \<^verbatim>\<open>{"title": ""}\<close> and \<^verbatim>\<open>{}\<close> are answered 201, and the
  row stored has the empty title.
\<close>

theorem C3_empty_title_counterexample:
  "status (fst (createTodo \<lparr>Param_id = [], body = Some (JObject [(''title'', JString [])])\<rparr>
                 seed_DB)) = StatusCreated
   \<and> Title (last (todos_tbl (snd (createTodo
         \<lparr>Param_id = [], body = Some (JObject [(''title'', JString [])])\<rparr> seed_DB)))) = []
   \<and> status (fst (createTodo \<lparr>Param_id = [], body = Some (JObject [])\<rparr> seed_DB))
       = StatusCreated
   \<and> Title (last (todos_tbl (snd (createTodo
         \<lparr>Param_id = [], body = Some (JObject [])\<rparr> seed_DB)))) = []"
  by (simp add: eval_defs)

text \<open>
  Claim C8. For a create request answered 201, the INSERT statement carries the title,
  detail, point and done of the body and no id; the id of the new row is the storage's
  AUTO_INCREMENT value, whatever \<^verbatim>\<open>id\<close> the body holds; and the response body is the
  record with that id and the submitted title, detail, point and done.
\<close>

theorem C8_created_id_is_storage_id:
  assumes "createTodo ctx db = (resp, db1)" and "status resp = StatusCreated"
  shows "\<exists>t. BindJSON (body ctx) zero_Todo = Inr t
           \<and> issued POST_todos ctx db =
               [(''INSERT INTO todos(title, detail, point, done) VALUES(?, ?, ?, ?)'',
                 [VStr (Title t), VStr (Detail t), VInt (Point t), VBool (Done t)])]
           \<and> (\<exists>row. todos_tbl db1 = todos_tbl db @ [row] \<and> Id' row = auto_increment db)
           \<and> resp = \<lparr>status = StatusCreated,
                      payload = JSON_Todo \<lparr>Id' = auto_increment db, Title = Title t,
                                   Detail = Detail t, Point = Point t, Done = Done t\<rparr>\<rparr>"
proof -
  from createTodo_Created [OF assms] obtain t st sd where
    bound: "BindJSON (body ctx) zero_Todo = Inr t"
    and resp: "resp = IndentedJSON StatusCreated (JSON_Todo (t\<lparr>Id' := auto_increment db\<rparr>))"
    and db1: "db1 = db\<lparr>stmt_log := stmt_log db @
                       [(''INSERT INTO todos(title, detail, point, done) VALUES(?, ?, ?, ?)'',
                         [VStr (Title t), VStr (Detail t), VInt (Point t), VBool (Done t)])],
                     todos_tbl := todos_tbl db @
                       [\<lparr>Id' = auto_increment db, Title = st, Detail = sd, Point = Point t,
                         Done = Done t\<rparr>],
                     auto_increment := auto_increment db + 1\<rparr>"
    by blast
  have row: "t\<lparr>Id' := auto_increment db\<rparr> =
      \<lparr>Id' = auto_increment db, Title = Title t, Detail = Detail t, Point = Point t,
       Done = Done t\<rparr>"
    by simp
  have sent: "issued POST_todos ctx db =
      [(''INSERT INTO todos(title, detail, point, done) VALUES(?, ?, ?, ?)'',
        [VStr (Title t), VStr (Detail t), VInt (Point t), VBool (Done t)])]"
    using assms(1) by (simp add: issued_def db1)
  have stored: "\<exists>row. todos_tbl db1 = todos_tbl db @ [row] \<and> Id' row = auto_increment db"
    by (simp add: db1)
  from bound sent resp stored row show ?thesis
    by (auto simp: IndentedJSON_def)
qed

text \<open>The body \<^verbatim>\<open>{"id": 99, "title": "a", "detail": "b", "point": 1, "done": true}\<close>
  on the seeded table: the row and the response get id 2.\<close>

theorem C8_created_id_witness:
  "createTodo
     \<lparr>Param_id = [],
      body = Some (JObject [(''id'', JInt 99), (''title'', JString ''a''),
                            (''detail'', JString ''b''), (''point'', JInt 1),
                            (''done'', JBool True)])\<rparr> seed_DB =
     (\<lparr>status = StatusCreated,
       payload = JSON_Todo \<lparr>Id' = 2, Title = ''a'', Detail = ''b'', Point = 1, Done = True\<rparr>\<rparr>,
      \<lparr>todos_tbl = [seed_row, \<lparr>Id' = 2, Title = ''a'', Detail = ''b'', Point = 1, Done = True\<rparr>],
       auto_increment = 3, ClientFoundRows = False, fault = None,
       stmt_log = [(''INSERT INTO todos(title, detail, point, done) VALUES(?, ?, ?, ?)'',
                    [VStr ''a'', VStr ''b'', VInt 1, VBool True])]\<rparr>)
   \<and> issued POST_todos
       \<lparr>Param_id = [],
        body = Some (JObject [(''id'', JInt 99), (''title'', JString ''a''),
                              (''detail'', JString ''b''), (''point'', JInt 1),
                              (''done'', JBool True)])\<rparr> seed_DB =
       [(''INSERT INTO todos(title, detail, point, done) VALUES(?, ?, ?, ?)'',
         [VStr ''a'', VStr ''b'', VInt 1, VBool True])]"
proof -
  have run: "createTodo
     \<lparr>Param_id = [],
      body = Some (JObject [(''id'', JInt 99), (''title'', JString ''a''),
                            (''detail'', JString ''b''), (''point'', JInt 1),
                            (''done'', JBool True)])\<rparr> seed_DB =
     (\<lparr>status = StatusCreated,
       payload = JSON_Todo \<lparr>Id' = 2, Title = ''a'', Detail = ''b'', Point = 1, Done = True\<rparr>\<rparr>,
      \<lparr>todos_tbl = [seed_row, \<lparr>Id' = 2, Title = ''a'', Detail = ''b'', Point = 1, Done = True\<rparr>],
       auto_increment = 3, ClientFoundRows = False, fault = None,
       stmt_log = [(''INSERT INTO todos(title, detail, point, done) VALUES(?, ?, ?, ?)'',
                    [VStr ''a'', VStr ''b'', VInt 1, VBool True])]\<rparr>)"
    by (simp add: eval_defs)
  have bound: "BindJSON (Some (JObject [(''id'', JInt 99), (''title'', JString ''a''),
                            (''detail'', JString ''b''), (''point'', JInt 1),
                            (''done'', JBool True)])) zero_Todo =
      Inr \<lparr>Id' = 99, Title = ''a'', Detail = ''b'', Point = 1, Done = True\<rparr>"
    by (simp add: eval_defs)
  from C8_created_id_is_storage_id [OF run] bound run show ?thesis
    by simp
qed

section \<open>Create, then get\<close>

lemma filter_Id_none:
  "list_all (\<lambda>r. Id' r < n) rows \<Longrightarrow> filter (\<lambda>r. Id' r = n) rows = []"
  by (induction rows) auto

text \<open>After a create answered 201 with a record, a get of the record's id, handled next
  and without a storage failure, is answered 200 with the row: the record of the create
  response with its title and detail as the columns store them.\<close>

lemma create_then_get_stored:
  assumes inv: "counter_above_ids db"
    and post: "createTodo ctx db = (resp, db1)"
    and created: "status resp = StatusCreated" "payload resp = JSON_Todo todo"
    and nofault: "fault db1 = None"
    and path: "ParseInt (Param_id ctx2) = Inr (Id' todo)"
  shows "\<exists>st sd. store_VARCHAR255 (Title todo) = Some st
           \<and> store_VARCHAR255 (Detail todo) = Some sd
           \<and> fst (getTodo ctx2 db1) =
               \<lparr>status = StatusOK, payload = JSON_Todo (todo\<lparr>Title := st, Detail := sd\<rparr>)\<rparr>"
proof -
  from createTodo_Created [OF post created(1)] obtain t st sd where
    st: "store_VARCHAR255 (Title t) = Some st"
    and sd: "store_VARCHAR255 (Detail t) = Some sd"
    and resp: "resp = IndentedJSON StatusCreated (JSON_Todo (t\<lparr>Id' := auto_increment db\<rparr>))"
    and db1: "db1 = db\<lparr>stmt_log := stmt_log db @
                       [(''INSERT INTO todos(title, detail, point, done) VALUES(?, ?, ?, ?)'',
                         [VStr (Title t), VStr (Detail t), VInt (Point t), VBool (Done t)])],
                     todos_tbl := todos_tbl db @
                       [\<lparr>Id' = auto_increment db, Title = st, Detail = sd, Point = Point t,
                         Done = Done t\<rparr>],
                     auto_increment := auto_increment db + 1\<rparr>"
    by blast
  let ?row = "\<lparr>Id' = auto_increment db, Title = st, Detail = sd, Point = Point t,
               Done = Done t\<rparr>"
  from resp created(2) have todo: "todo = t\<lparr>Id' := auto_increment db\<rparr>"
    by (simp add: IndentedJSON_def)
  have row: "todo\<lparr>Title := st, Detail := sd\<rparr> = ?row"
    by (simp add: todo)
  have old: "filter (\<lambda>r. Id' r = auto_increment db) (todos_tbl db) = []"
    using inv by (simp add: counter_above_ids_def filter_Id_none)
  have found: "filter (\<lambda>r. Id' r = Id' todo) (todos_tbl db1) = [?row]"
    by (simp add: db1 todo old)
  have cols: "Scan (Inr (columns db1 ?row)) = Inr ?row"
    using nofault by (simp add: Scan_def columns_def)
  have "fst (getTodo ctx2 db1) = \<lparr>status = StatusOK, payload = JSON_Todo ?row\<rparr>"
    using path nofault found cols
    by (simp add: getTodo_def DB_QueryRow_def Let_def IndentedJSON_def)
  with st sd row todo show ?thesis by simp
qed

text \<open>
  Claim C5, as the storage has it. When a create request is answered 201 with a record
  whose title and detail have at most 255 characters each, a get request whose id segment
  parses to the id of that record, handled next and without a storage failure, is
  answered 200 with the same record: id, title, detail, point and done.
\<close>

theorem C5_create_then_get:
  assumes inv: "counter_above_ids db"
    and post: "createTodo ctx db = (resp, db1)"
    and created: "status resp = StatusCreated" "payload resp = JSON_Todo todo"
    and fits: "fits_VARCHAR255 (Title todo)" "fits_VARCHAR255 (Detail todo)"
    and nofault: "fault db1 = None"
    and path: "ParseInt (Param_id ctx2) = Inr (Id' todo)"
  shows "fst (getTodo ctx2 db1) = \<lparr>status = StatusOK, payload = JSON_Todo todo\<rparr>"
proof -
  from create_then_get_stored [OF inv post created nofault path] obtain st sd where
    st: "store_VARCHAR255 (Title todo) = Some st"
    and sd: "store_VARCHAR255 (Detail todo) = Some sd"
    and got: "fst (getTodo ctx2 db1) =
               \<lparr>status = StatusOK, payload = JSON_Todo (todo\<lparr>Title := st, Detail := sd\<rparr>)\<rparr>"
    by blast
  from st sd fits store_fits have "st = Title todo" and "sd = Detail todo"
    by auto
  with got show ?thesis by simp
qed

text \<open>The scenario of the specification on the seeded table: POST
  \<^verbatim>\<open>{"title": "a", "detail": "b", "point": 1, "done": false}\<close>, then GET
  \<^verbatim>\<open>/todos/2\<close>.\<close>

theorem C5_create_then_get_witness:
  "counter_above_ids seed_DB
   \<and> fst (createTodo
        \<lparr>Param_id = [],
         body = Some (JObject [(''title'', JString ''a''), (''detail'', JString ''b''),
                               (''point'', JInt 1), (''done'', JBool False)])\<rparr> seed_DB) =
       \<lparr>status = StatusCreated,
        payload = JSON_Todo \<lparr>Id' = 2, Title = ''a'', Detail = ''b'', Point = 1, Done = False\<rparr>\<rparr>
   \<and> fits_VARCHAR255 ''a'' \<and> fits_VARCHAR255 ''b''
   \<and> ParseInt ''2'' = Inr 2
   \<and> fst (getTodo \<lparr>Param_id = ''2'', body = None\<rparr>
          (snd (createTodo
             \<lparr>Param_id = [],
              body = Some (JObject [(''title'', JString ''a''), (''detail'', JString ''b''),
                                    (''point'', JInt 1), (''done'', JBool False)])\<rparr> seed_DB))) =
       \<lparr>status = StatusOK,
        payload = JSON_Todo \<lparr>Id' = 2, Title = ''a'', Detail = ''b'', Point = 1, Done = False\<rparr>\<rparr>"
proof -
  let ?post = "\<lparr>Param_id = [],
         body = Some (JObject [(''title'', JString ''a''), (''detail'', JString ''b''),
                               (''point'', JInt 1), (''done'', JBool False)])\<rparr>"
  let ?todo = "\<lparr>Id' = 2, Title = ''a'', Detail = ''b'', Point = 1, Done = False\<rparr>"
  have inv: "counter_above_ids seed_DB"
    by (simp add: counter_above_ids_def seed_DB_def main_DB_def seed_row_def)
  have post: "createTodo ?post seed_DB = (fst (createTodo ?post seed_DB), snd (createTodo ?post seed_DB))"
    by simp
  have resp: "fst (createTodo ?post seed_DB) = \<lparr>status = StatusCreated, payload = JSON_Todo ?todo\<rparr>"
    by (simp add: eval_defs)
  have fits: "fits_VARCHAR255 (Title ?todo)" "fits_VARCHAR255 (Detail ?todo)"
    by (simp_all add: fits_VARCHAR255_def char_length_def is_continuation_def)
  have nofault: "fault (snd (createTodo ?post seed_DB)) = None"
    by (simp add: eval_defs)
  have path: "ParseInt (Param_id \<lparr>Param_id = ''2'', body = None\<rparr>) = Inr (Id' ?todo)"
    by (simp add: ParseInt_def ParseUint_def digit_def)
  from C5_create_then_get [OF inv post _ _ fits nofault path] resp inv path fits
  show ?thesis by simp
qed

text \<open>
  Claim C5, as the specification has it (for every valid create payload), fails at a
  title of 255 letters and one space. The create handler answers 201 with the title as
  submitted, 256 characters; storage holds the row with the space cut; and GET
  \<^verbatim>\<open>/todos/2\<close> returns the title of 255 characters.
\<close>

theorem C5_trailing_space_counterexample:
  "fst (createTodo
     \<lparr>Param_id = [],
      body = Some (JObject [(''title'', JString (replicate 255 CHR ''a'' @ '' ''))])\<rparr> seed_DB) =
     \<lparr>status = StatusCreated,
      payload = JSON_Todo \<lparr>Id' = 2, Title = replicate 255 CHR ''a'' @ '' '', Detail = [],
                           Point = 0, Done = False\<rparr>\<rparr>
   \<and> fst (getTodo \<lparr>Param_id = ''2'', body = None\<rparr>
        (snd (createTodo
           \<lparr>Param_id = [],
            body = Some (JObject [(''title'', JString (replicate 255 CHR ''a'' @ '' ''))])\<rparr>
           seed_DB))) =
     \<lparr>status = StatusOK,
      payload = JSON_Todo \<lparr>Id' = 2, Title = replicate 255 CHR ''a'', Detail = [],
                           Point = 0, Done = False\<rparr>\<rparr>
   \<and> replicate 255 CHR ''a'' @ '' '' \<noteq> replicate 255 CHR ''a''"
  by code_simp

section \<open>Delete\<close>

text \<open>
  Claim C7. For an id present in the table and a storage without failures, the first of
  two successive DELETE requests for that id is answered 200 with the body
  \<^verbatim>\<open>{"id": id}\<close>, and the second 404.
\<close>

theorem C7_delete_twice:
  assumes nofault: "fault db = None"
    and path: "ParseInt (Param_id ctx) = Inr i"
    and present: "i \<in> Id' ` set (todos_tbl db)"
  shows "fst (deleteTodo ctx db) = \<lparr>status = StatusOK, payload = H_id i\<rparr>
       \<and> status (fst (deleteTodo ctx (snd (deleteTodo ctx db)))) = StatusNotFound"
proof -
  have some: "filter (\<lambda>r. Id' r = i) (todos_tbl db) \<noteq> []"
    using present by (auto simp: filter_empty_conv)
  have first: "deleteTodo ctx db =
      (IndentedJSON StatusOK (H_id i),
       db\<lparr>stmt_log := stmt_log db @ [(''DELETE FROM todos WHERE id = ?'', [VInt i])],
          todos_tbl := filter (\<lambda>r. Id' r \<noteq> i) (todos_tbl db)\<rparr>)"
    using nofault path some
    by (simp add: deleteTodo_def DB_Exec_def exec_delete_def Let_def)
  have gone: "filter (\<lambda>r. Id' r = i) (filter (\<lambda>r. Id' r \<noteq> i) (todos_tbl db)) = []"
    by (simp add: filter_empty_conv)
  have second: "status (fst (deleteTodo ctx (snd (deleteTodo ctx db)))) = StatusNotFound"
    using nofault path gone
    by (simp add: first)
       (simp add: deleteTodo_def DB_Exec_def exec_delete_def Let_def IndentedJSON_def)
  from first second show ?thesis by (simp add: IndentedJSON_def)
qed

text \<open>DELETE \<^verbatim>\<open>/todos/1\<close> twice on the seeded table.\<close>

theorem C7_delete_twice_witness:
  "fault seed_DB = None \<and> ParseInt ''1'' = Inr 1 \<and> 1 \<in> Id' ` set (todos_tbl seed_DB)
   \<and> fst (deleteTodo \<lparr>Param_id = ''1'', body = None\<rparr> seed_DB) =
       \<lparr>status = StatusOK, payload = H_id 1\<rparr>
   \<and> status (fst (deleteTodo \<lparr>Param_id = ''1'', body = None\<rparr>
                 (snd (deleteTodo \<lparr>Param_id = ''1'', body = None\<rparr> seed_DB)))) = StatusNotFound"
proof -
  have nofault: "fault seed_DB = None"
    by (simp add: seed_DB_def main_DB_def)
  have path: "ParseInt (Param_id \<lparr>Param_id = ''1'', body = None\<rparr>) = Inr 1"
    by (simp add: ParseInt_def ParseUint_def digit_def)
  have present: "1 \<in> Id' ` set (todos_tbl seed_DB)"
    by (simp add: seed_DB_def main_DB_def seed_row_def)
  from C7_delete_twice [OF nofault path present] nofault path present
  show ?thesis by simp
qed

section \<open>Get under a storage failure\<close>

text \<open>\<^verbatim>\<open>getTodo\<close> has no branch that answers 500.\<close>

lemma getTodo_never_500: "status (fst (getTodo ctx db)) \<noteq> StatusInternalServerError"
  by (simp add: getTodo_def IndentedJSON_def split: sum.split prod.split)

text \<open>
  Claim C2 (a storage failure on GET \<^verbatim>\<open>/todos/{id}\<close> is answered 500, and 404 only
  when no row matches) against the handler: \<^verbatim>\<open>getTodo\<close> answers every error of
  \<^verbatim>\<open>row.Scan\<close> with 404 "not exists id". With row 1 in the table, GET
  \<^verbatim>\<open>/todos/1\<close> is answered 404 when the server cannot be reached, and 404 when the
  row does not decode.
\<close>

theorem C2_getTodo_storage_failure_is_404:
  "1 \<in> Id' ` set (todos_tbl seed_DB)
   \<and> fst (getTodo \<lparr>Param_id = ''1'', body = None\<rparr> (seed_DB\<lparr>fault := Some ConnFault\<rparr>)) =
       \<lparr>status = StatusNotFound, payload = H_message ''not exists id''\<rparr>
   \<and> fst (getTodo \<lparr>Param_id = ''1'', body = None\<rparr> (seed_DB\<lparr>fault := Some ScanFault\<rparr>)) =
       \<lparr>status = StatusNotFound, payload = H_message ''not exists id''\<rparr>
   \<and> fst (getTodo \<lparr>Param_id = ''1'', body = None\<rparr> seed_DB) =
       \<lparr>status = StatusOK, payload = JSON_Todo seed_row\<rparr>"
  by (simp add: eval_defs)

section \<open>Update\<close>

text \<open>The id in the WHERE clause of the UPDATE is the id of the struct after the body
  was bound into it.\<close>

lemma updateTodo_issued:
  assumes "ParseInt (Param_id ctx) = Inr i"
    and "BindJSON (body ctx) (zero_Todo\<lparr>Id' := i\<rparr>) = Inr t"
  shows "issued PUT_todos_id ctx db =
     [(''UPDATE todos SET title = ?, detail = ?, point = ?, done = ? WHERE id = ?'',
       [VStr (Title t), VStr (Detail t), VInt (Point t), VBool (Done t), VInt (Id' t)])]"
  using assms by (simp add: issued_def updateTodo_snd DB_Exec_log)

lemma BindJSON_id_member:
  assumes "- (2 ^ 63) \<le> n" and "n < 2 ^ 63"
  shows "BindJSON (Some (JObject [(''id'', JInt n)])) (zero_Todo\<lparr>Id' := i\<rparr>) =
         Inr (zero_Todo\<lparr>Id' := n\<rparr>)"
  using assms
  by (simp add: BindJSON_def Unmarshal_def decode_field_def decode_int64_def to_lower_def
      zero_Todo_def)

text \<open>
  Claim C1 (the row overwritten by PUT \<^verbatim>\<open>/todos/{id}\<close> is the one of the path id, and
  an \<^verbatim>\<open>id\<close> in the body is ignored) against the handler: \<^verbatim>\<open>updateTodo\<close> binds the
  body after it stored the path id, so an \<^verbatim>\<open>id\<close> member of the body replaces the path
  id. PUT \<^verbatim>\<open>/todos/1\<close> with the body \<^verbatim>\<open>{"id": 2, "title": "x"}\<close> on a table with
  the rows 1 and 2 overwrites row 2, leaves row 1, and answers 200 with id 2.
\<close>

theorem C1_body_id_replaces_path_id:
  "updateTodo
     \<lparr>Param_id = ''1'', body = Some (JObject [(''id'', JInt 2), (''title'', JString ''x'')])\<rparr>
     (main_DB [seed_row, seed_row\<lparr>Id' := 2\<rparr>] 3) =
   (\<lparr>status = StatusOK,
     payload = JSON_Todo \<lparr>Id' = 2, Title = ''x'', Detail = [], Point = 0, Done = False\<rparr>\<rparr>,
    \<lparr>todos_tbl = [seed_row, \<lparr>Id' = 2, Title = ''x'', Detail = [], Point = 0, Done = False\<rparr>],
     auto_increment = 3, ClientFoundRows = False, fault = None,
     stmt_log = [(''UPDATE todos SET title = ?, detail = ?, point = ?, done = ? WHERE id = ?'',
                  [VStr ''x'', VStr [], VInt 0, VBool False, VInt 2])]\<rparr>)"
  by (simp add: eval_defs)

text \<open>An UPDATE that reports no affected row has changed no row.\<close>

lemma unchanged_rows:
  "filter (\<lambda>r. f r \<noteq> r) (filter (\<lambda>r. Id' r = i) rows) = [] \<Longrightarrow>
   map (\<lambda>r. if Id' r = i then f r else r) rows = rows"
  by (induction rows) (auto split: if_splits)

lemma unmatched_rows:
  "filter (\<lambda>r. Id' r = i) rows = [] \<Longrightarrow> map (\<lambda>r. if Id' r = i then f r else r) rows = rows"
  by (induction rows) (auto split: if_splits)

lemma exec_update_zero_rows:
  assumes "exec_update args db = Inr (res, db1)" and "RowsAffected res = Inr 0"
  shows "todos_tbl db1 = todos_tbl db"
proof (cases "update_args args")
  case None
  with assms show ?thesis by (simp add: exec_update_def)
next
  case (Some a)
  obtain t d p b i where a: "a = (t, d, p, b, i)" by (cases a) auto
  from assms Some a show ?thesis
    by (cases "ClientFoundRows db")
       (auto simp: exec_update_def Let_def unchanged_rows unmatched_rows
          split: if_splits option.splits)
qed

lemma DB_Exec_update_zero_rows:
  assumes "DB_Exec ''UPDATE todos SET title = ?, detail = ?, point = ?, done = ? WHERE id = ?''
             args db = (Inr res, db1)"
    and "RowsAffected res = Inr 0"
  shows "todos_tbl db1 = todos_tbl db"
proof -
  from assms obtain res0 where
    run: "exec_update args (db\<lparr>stmt_log := stmt_log db @
            [(''UPDATE todos SET title = ?, detail = ?, point = ?, done = ? WHERE id = ?'', args)]\<rparr>)
          = Inr (res0, db1)"
    and res: "res = (if fault db = Some ResultFault
                     then \<lparr>LastInsertId = Inl ResultError, RowsAffected = Inl ResultError\<rparr>
                     else res0)"
    by (auto simp: DB_Exec_def Let_def split: if_splits sum.splits prod.splits)
  from res assms(2) have "RowsAffected res0 = Inr 0"
    by (simp split: if_splits)
  from exec_update_zero_rows [OF run this] show ?thesis by simp
qed

text \<open>The part of claim C4 that the handler keeps: an update answered 404 has changed
  no row.\<close>

lemma updateTodo_404_changes_no_row:
  assumes "status (fst (updateTodo ctx db)) = StatusNotFound"
  shows "todos_tbl (snd (updateTodo ctx db)) = todos_tbl db"
proof (cases "ParseInt (Param_id ctx)")
  case (Inl e)
  then show ?thesis by (simp add: updateTodo_def)
next
  case (Inr i)
  show ?thesis
  proof (cases "BindJSON (body ctx) (zero_Todo\<lparr>Id' := i\<rparr>)")
    case (Inl e)
    with Inr show ?thesis by (simp add: updateTodo_def)
  next
    case bound: (Inr t)
    obtain r db1 where run:
      "DB_Exec ''UPDATE todos SET title = ?, detail = ?, point = ?, done = ? WHERE id = ?''
         [VStr (Title t), VStr (Detail t), VInt (Point t), VBool (Done t), VInt (Id' t)] db
       = (r, db1)"
      by (cases "DB_Exec ''UPDATE todos SET title = ?, detail = ?, point = ?, done = ? WHERE id = ?''
         [VStr (Title t), VStr (Detail t), VInt (Point t), VBool (Done t), VInt (Id' t)] db")
    from Inr bound run have db1: "snd (updateTodo ctx db) = db1"
      by (simp add: updateTodo_snd)
    from assms Inr bound run obtain res where "r = Inr res" and "RowsAffected res = Inr 0"
      by (auto simp: updateTodo_def IndentedJSON_def split: sum.splits if_splits)
    with run DB_Exec_update_zero_rows [of _ db res db1] db1 show ?thesis by simp
  qed
qed

text \<open>Where both causes are absent (the connection reports the rows matched, and the bound
  struct still holds the path id), the update is answered 404 exactly when the id is not
  in the table, and 200 otherwise.\<close>

lemma updateTodo_found_rows:
  assumes nofault: "fault db = None"
    and found_rows: "ClientFoundRows db"
    and path: "ParseInt (Param_id ctx) = Inr i"
    and bound: "BindJSON (body ctx) (zero_Todo\<lparr>Id' := i\<rparr>) = Inr t"
    and same_id: "Id' t = i"
    and fits: "fits_VARCHAR255 (Title t)" "fits_VARCHAR255 (Detail t)" "fits_INT (Point t)"
  shows "status (fst (updateTodo ctx db)) =
         (if i \<in> Id' ` set (todos_tbl db) then StatusOK else StatusNotFound)"
proof -
  have present: "(filter (\<lambda>r. Id' r = i) (todos_tbl db) = []) = (i \<notin> Id' ` set (todos_tbl db))"
    by (auto simp: filter_empty_conv)
  from nofault found_rows path bound same_id fits present show ?thesis
    by (simp add: updateTodo_def DB_Exec_def exec_update_def Let_def IndentedJSON_def
        store_fits)
qed

text \<open>
  Claim C4 (an update is answered 404 exactly when the id does not exist, and 200 when it
  exists) against the handler, on the seeded table, which holds id 1 only. PUT
  \<^verbatim>\<open>/todos/1\<close> with the values row 1 already has is answered 404 "not exists id": the
  connection of \<^verbatim>\<open>main\<close> reports the rows changed, and none changed. PUT
  \<^verbatim>\<open>/todos/99\<close> with the body \<^verbatim>\<open>{"id": 1, "title": "x"}\<close> is answered 200 and
  rewrites row 1, since the body's id replaced the path id.
\<close>

theorem C4_updateTodo_404_is_not_absence:
  "1 \<in> Id' ` set (todos_tbl seed_DB)
   \<and> fst (updateTodo
        \<lparr>Param_id = ''1'',
         body = Some (JObject [(''title'', JString ''test_title''),
                               (''detail'', JString ''test_detail''),
                               (''point'', JInt 0), (''done'', JBool False)])\<rparr> seed_DB) =
       \<lparr>status = StatusNotFound, payload = H_message ''not exists id''\<rparr>
   \<and> 99 \<notin> Id' ` set (todos_tbl seed_DB)
   \<and> fst (updateTodo
        \<lparr>Param_id = ''99'', body = Some (JObject [(''id'', JInt 1), (''title'', JString ''x'')])\<rparr>
        seed_DB) =
       \<lparr>status = StatusOK,
        payload = JSON_Todo \<lparr>Id' = 1, Title = ''x'', Detail = [], Point = 0, Done = False\<rparr>\<rparr>
   \<and> todos_tbl (snd (updateTodo
        \<lparr>Param_id = ''99'', body = Some (JObject [(''id'', JInt 1), (''title'', JString ''x'')])\<rparr>
        seed_DB)) =
       [\<lparr>Id' = 1, Title = ''x'', Detail = [], Point = 0, Done = False\<rparr>]"
  by (simp add: eval_defs)

section \<open>The AUTO_INCREMENT counter stays above the ids\<close>

lemma exec_insert_counter:
  "counter_above_ids db \<Longrightarrow> exec_insert args db = Inr (res, db1) \<Longrightarrow> counter_above_ids db1"
  by (fastforce simp: exec_insert_def counter_above_ids_def list_all_iff
      split: option.splits if_splits)

lemma exec_update_counter:
  "counter_above_ids db \<Longrightarrow> exec_update args db = Inr (res, db1) \<Longrightarrow> counter_above_ids db1"
  by (auto simp: exec_update_def counter_above_ids_def list_all_iff Let_def
      split: option.splits if_splits)

lemma exec_delete_counter:
  "counter_above_ids db \<Longrightarrow> exec_delete args db = Inr (res, db1) \<Longrightarrow> counter_above_ids db1"
  by (auto simp: exec_delete_def counter_above_ids_def list_all_iff
      split: option.splits)

lemma counter_above_ids_log:
  "counter_above_ids (db\<lparr>stmt_log := l\<rparr>) = counter_above_ids db"
  by (simp add: counter_above_ids_def)

lemma DB_Exec_counter:
  assumes "counter_above_ids db"
  shows "counter_above_ids (snd (DB_Exec q args db))"
proof -
  let ?db1 = "db\<lparr>stmt_log := stmt_log db @ [(q, args)]\<rparr>"
  let ?run = "if q = ''INSERT INTO todos(title, detail, point, done) VALUES(?, ?, ?, ?)''
                then exec_insert args ?db1
              else if q = ''UPDATE todos SET title = ?, detail = ?, point = ?, done = ? WHERE id = ?''
                then exec_update args ?db1
              else if q = ''DELETE FROM todos WHERE id = ?''
                then exec_delete args ?db1
              else Inl QueryError"
  have logged: "counter_above_ids ?db1"
    using assms by (simp add: counter_above_ids_log)
  show ?thesis
  proof (cases "fault db = Some ConnFault")
    case True
    with logged show ?thesis by (simp add: DB_Exec_def Let_def)
  next
    case False
    show ?thesis
    proof (cases ?run)
      case (Inl e)
      with False logged show ?thesis by (simp add: DB_Exec_def Let_def)
    next
      case (Inr p)
      obtain res db2 where p: "p = (res, db2)" by (cases p)
      from Inr p have "counter_above_ids db2"
        using exec_insert_counter [OF logged] exec_update_counter [OF logged]
          exec_delete_counter [OF logged]
        by (simp split: if_splits)
      with False Inr p show ?thesis by (simp add: DB_Exec_def Let_def)
    qed
  qed
qed

lemma DB_QueryRow_counter:
  "counter_above_ids db \<Longrightarrow> counter_above_ids (snd (DB_QueryRow q args db))"
  by (simp add: DB_QueryRow_def Let_def counter_above_ids_def split: option.split list.split)

lemma DB_Query_counter:
  "counter_above_ids db \<Longrightarrow> counter_above_ids (snd (DB_Query q db))"
  by (simp add: DB_Query_def Let_def counter_above_ids_def)

lemma seed_DB_counter: "counter_above_ids seed_DB"
  by (simp add: counter_above_ids_def seed_DB_def main_DB_def seed_row_def)

text \<open>Every handler keeps the counter above the ids, so the condition holds for every
  storage state the program reaches from the seeded table.\<close>

lemma router_counter:
  assumes "counter_above_ids db"
  shows "counter_above_ids (snd (router ep ctx db))"
proof (cases ep)
  case POST_todos
  show ?thesis
  proof (cases "BindJSON (body ctx) zero_Todo")
    case (Inl e)
    with POST_todos assms show ?thesis by (simp add: createTodo_def)
  next
    case (Inr t)
    with POST_todos assms show ?thesis by (simp add: createTodo_snd DB_Exec_counter)
  qed
next
  case GET_todos
  with assms show ?thesis by (simp add: listTodos_snd DB_Query_counter)
next
  case GET_todos_id
  show ?thesis
  proof (cases "ParseInt (Param_id ctx)")
    case (Inl e)
    with GET_todos_id assms show ?thesis by (simp add: getTodo_def)
  next
    case (Inr i)
    with GET_todos_id assms show ?thesis by (simp add: getTodo_snd DB_QueryRow_counter)
  qed
next
  case PUT_todos_id
  show ?thesis
  proof (cases "ParseInt (Param_id ctx)")
    case (Inl e)
    with PUT_todos_id assms show ?thesis by (simp add: updateTodo_def)
  next
    case (Inr i)
    show ?thesis
    proof (cases "BindJSON (body ctx) (zero_Todo\<lparr>Id' := i\<rparr>)")
      case (Inl e)
      with Inr PUT_todos_id assms show ?thesis by (simp add: updateTodo_def)
    next
      case bound: (Inr t)
      with Inr PUT_todos_id assms show ?thesis by (simp add: updateTodo_snd DB_Exec_counter)
    qed
  qed
next
  case DELETE_todos_id
  show ?thesis
  proof (cases "ParseInt (Param_id ctx)")
    case (Inl e)
    with DELETE_todos_id assms show ?thesis by (simp add: deleteTodo_def)
  next
    case (Inr i)
    with DELETE_todos_id assms show ?thesis by (simp add: deleteTodo_snd DB_Exec_counter)
  qed
qed

section \<open>The scenario of the specification\<close>

text \<open>POST, GET, PUT, DELETE, GET on an empty table whose counter is 1.\<close>

lemma scenario:
  "(let d0 = main_DB [] 1;
        (r1, d1) = createTodo \<lparr>Param_id = [],
                      body = Some (JObject [(''title'', JString ''a''), (''detail'', JString ''b''),
                                            (''point'', JInt 1), (''done'', JBool False)])\<rparr> d0;
        (r2, d2) = getTodo \<lparr>Param_id = ''1'', body = None\<rparr> d1;
        (r3, d3) = updateTodo \<lparr>Param_id = ''1'',
                      body = Some (JObject [(''title'', JString ''c''), (''detail'', JString ''d''),
                                            (''point'', JInt 2), (''done'', JBool True)])\<rparr> d2;
        (r4, d4) = deleteTodo \<lparr>Param_id = ''1'', body = None\<rparr> d3;
        (r5, d5) = getTodo \<lparr>Param_id = ''1'', body = None\<rparr> d4
    in [r1, r2, r3, r4, r5]) =
   [\<lparr>status = StatusCreated,
     payload = JSON_Todo \<lparr>Id' = 1, Title = ''a'', Detail = ''b'', Point = 1, Done = False\<rparr>\<rparr>,
    \<lparr>status = StatusOK,
     payload = JSON_Todo \<lparr>Id' = 1, Title = ''a'', Detail = ''b'', Point = 1, Done = False\<rparr>\<rparr>,
    \<lparr>status = StatusOK,
     payload = JSON_Todo \<lparr>Id' = 1, Title = ''c'', Detail = ''d'', Point = 2, Done = True\<rparr>\<rparr>,
    \<lparr>status = StatusOK, payload = H_id 1\<rparr>,
    \<lparr>status = StatusNotFound, payload = H_message ''not exists id''\<rparr>]"
  by (simp add: eval_defs)

end
